theory Spec2Isabelle
  imports Main "HOL-Library.Char_ord" "HOL-Library.List_Lexorder"
begin

section \<open>Runtime values: instants, Date objects, ISO strings, JSON scalars\<close>

text \<open>
  The server (\<^verbatim>\<open>src/unnamed/part_001\<close>, a Hono application) is a set of request
  handlers over a key-value store. Each handler is embedded as a function from the
  request (authentication result, parameters, body), the clock readings it takes and the
  store to either a failure (the HTTP status of the error response) or the new store
  together with the JSON response.

  Numbers are JavaScript numbers in the source; the quantities the handlers compute with
  (XP, streak, minutes, epoch milliseconds) are integers of the data model and are
  embedded as \<open>int\<close>. Division by 15 followed by \<^verbatim>\<open>Math.floor\<close> is \<open>div\<close> on
  \<open>int\<close>, which rounds towards minus infinity as \<^verbatim>\<open>Math.floor\<close> does.
\<close>

type_synonym userId = string

text \<open>Milliseconds since the epoch: the value of \<^verbatim>\<open>Date.now()\<close> and \<^verbatim>\<open>getTime()\<close>.\<close>

type_synonym instant = int

text \<open>
  A \<^verbatim>\<open>Date\<close> object holds a time value or is an Invalid Date (time value NaN),
  embedded as \<open>None\<close>. The constructor clips its argument to the range of
  \<open>\<plusminus>8640000000000000\<close> ms around the epoch (\<^verbatim>\<open>TimeClip\<close> of ECMA-262).
\<close>

type_synonym date = "instant option"

definition TimeClip :: "int \<Rightarrow> date" where
  "TimeClip t = (if \<bar>t\<bar> \<le> 8640000000000000 then Some t else None)"

text \<open>
  The string \<^verbatim>\<open>toISOString()\<close> renders for an instant. The rendering is
  \<^verbatim>\<open>YYYY-MM-DDTHH:mm:ss.sssZ\<close> in UTC; it determines the instant and is kept
  abstract as \<open>ISO t\<close>. The part before the \<^verbatim>\<open>T\<close> is the UTC calendar date; it is
  a one-to-one rendering of the day number \<open>Day(t) = floor (t / 86400000)\<close> of
  ECMA-262 and is identified with that number.
\<close>

datatype isoString = ISO (timeOf: instant)

text \<open>\<^verbatim>\<open>s.split('T')[0]\<close> on an ISO string.\<close>

fun datePart :: "isoString \<Rightarrow> int" where
  "datePart (ISO t) = t div 86400000"

text \<open>\<^verbatim>\<open>d.toISOString()\<close>: throws a RangeError (here \<open>None\<close>) on an Invalid Date.\<close>

definition toISOString :: "date \<Rightarrow> isoString option" where
  "toISOString d = map_option ISO d"

text \<open>\<^verbatim>\<open>new Date(d.getTime() + n)\<close>: NaN propagates, the sum is clipped.\<close>

definition plusMs :: "date \<Rightarrow> int \<Rightarrow> date" where
  "plusMs d n = (case d of None \<Rightarrow> None | Some t \<Rightarrow> TimeClip (t + n))"

text \<open>
  A scalar JSON value of a request body; an absent property (\<^verbatim>\<open>undefined\<close>) is
  \<open>None\<close> of \<open>json option\<close>.
\<close>

datatype json = JNull | JBool bool | JNum int | JStr string

fun truthy :: "json option \<Rightarrow> bool" where
  "truthy None = False"
| "truthy (Some JNull) = False"
| "truthy (Some (JBool b)) = b"
| "truthy (Some (JNum n)) = (n \<noteq> 0)"
| "truthy (Some (JStr s)) = (s \<noteq> [])"

text \<open>\<^verbatim>\<open>v || Date.now()\<close>: the left operand when it is truthy, else the clock reading.\<close>

fun or_now :: "json option \<Rightarrow> instant \<Rightarrow> json" where
  "or_now None now = JNum now"
| "or_now (Some j) now = (if truthy (Some j) then j else JNum now)"

text \<open>
  \<^verbatim>\<open>new Date(v)\<close> on a scalar. A string goes through the engine's date parser, which
  ECMA-262 fixes only for the ISO format; the parser is a parameter \<open>parse\<close>, with
  \<open>None\<close> for an unrecognised string. Other scalars are converted to a number.
\<close>

fun newDate :: "(string \<Rightarrow> instant option) \<Rightarrow> json \<Rightarrow> date" where
  "newDate parse (JStr s) = (case parse s of None \<Rightarrow> None | Some t \<Rightarrow> TimeClip t)"
| "newDate parse (JNum n) = TimeClip n"
| "newDate parse (JBool b) = TimeClip (if b then 1 else 0)"
| "newDate parse JNull = TimeClip 0"

text \<open>\<^verbatim>\<open>x || 0\<close> on an optional number.\<close>

fun or_0 :: "int option \<Rightarrow> int" where
  "or_0 None = 0"
| "or_0 (Some n) = (if n \<noteq> 0 then n else 0)"

text \<open>The error responses of the handlers: HTTP 401, 404 and 500.\<close>

datatype failure = Unauthorized | NotFound | Failed

section \<open>Stored documents\<close>

text \<open>
  The store holds JSON documents. They are embedded with the types of the data model: xp,
  level, streak and minutes are numbers, timestamps are ISO strings and
  \<^verbatim>\<open>completed\<close> is a boolean. A document with a value of another type in such a
  property is outside the embedding.

  Record identifiers are \<^verbatim>\<open>`${userId}:${Date.now()}`\<close>; they are embedded as the
  pair of the user and the clock reading.
\<close>

type_synonym recId = "userId \<times> instant"

text \<open>
  The profile written at signup. Every property is optional, since the handlers read
  with \<^verbatim>\<open>profile?.xp || 0\<close> and write \<^verbatim>\<open>{ ...profile, xp: ... }\<close> also when
  no profile is stored. \<open>None\<close> stands for an absent or \<^verbatim>\<open>null\<close> property; the
  handlers do not tell the two apart.
\<close>

record profile =
  p_name :: "string option"
  p_email :: "string option"
  p_createdAt :: "isoString option"
  p_xp :: "int option"
  p_level :: "int option"
  p_streak :: "int option"
  p_lastStudyDate :: "isoString option"
  p_achievements :: "string list option"
  p_onboardingComplete :: "bool option"

text \<open>\<^verbatim>\<open>{ ...profile }\<close> where \<^verbatim>\<open>profile\<close> may be undefined.\<close>

definition no_profile :: profile where
  "no_profile = \<lparr>p_name = None, p_email = None, p_createdAt = None, p_xp = None,
     p_level = None, p_streak = None, p_lastStudyDate = None, p_achievements = None,
     p_onboardingComplete = None\<rparr>"

fun spread :: "profile option \<Rightarrow> profile" where
  "spread None = no_profile"
| "spread (Some p) = p"

text \<open>\<^verbatim>\<open>profile?.xp\<close>, \<^verbatim>\<open>profile?.streak\<close>, \<^verbatim>\<open>profile?.lastStudyDate\<close>.\<close>

fun opt_field :: "'a option \<Rightarrow> ('a \<Rightarrow> 'b option) \<Rightarrow> 'b option" where
  "opt_field None f = None"
| "opt_field (Some p) f = f p"

record 't schedule =
  s_userId :: userId
  s_topic :: string
  s_studiedAt :: 't
  reviews :: "'t list"
  completedReviews :: "'t list"
  s_createdAt :: 't

record studyData =
  sd_subject :: string
  sd_topic :: string
  sd_duration :: "int option"
  sd_focusLevel :: int
  sd_energyLevel :: int
  sd_distractions :: int
  sd_source :: string

record studyRecord =
  sr_userId :: userId
  sr_data :: studyData
  sr_createdAt :: isoString

text \<open>
  Tasks and goals: the owner, the \<^verbatim>\<open>completed\<close> flag and the remaining properties
  by name. An update object may carry any of them.
\<close>

record item =
  i_userId :: userId
  i_completed :: bool
  i_rest :: "string \<rightharpoonup> json"

record itemUpdates =
  u_userId :: "userId option"
  u_completed :: "bool option"
  u_rest :: "string \<rightharpoonup> json"

text \<open>
  Modelled from the spec: the key-value store (\<^verbatim>\<open>kv_store.tsx\<close> is not among the
  sources), an opaque mapping from string key to JSON value with get and set. The key
  prefixes \<^verbatim>\<open>user_profile:\<close>, \<^verbatim>\<open>user_routine:\<close>, \<^verbatim>\<open>study_record:\<close>,
  \<^verbatim>\<open>goal:\<close>, \<^verbatim>\<open>task:\<close> and \<^verbatim>\<open>review:\<close> partition the keys, so the store is
  one map per prefix; \<^verbatim>\<open>kv.get\<close> is application and \<^verbatim>\<open>kv.set\<close> is map update.
\<close>

record store =
  kv_profile :: "userId \<rightharpoonup> profile"
  kv_routine :: "userId \<rightharpoonup> ((string \<rightharpoonup> json) \<times> isoString \<times> isoString)"
  kv_study_record :: "recId \<rightharpoonup> studyRecord"
  kv_goal :: "recId \<rightharpoonup> item"
  kv_task :: "recId \<rightharpoonup> item"
  kv_review :: "recId \<rightharpoonup> isoString schedule"

definition kv_set :: "('k \<rightharpoonup> 'v) \<Rightarrow> 'k \<Rightarrow> 'v \<Rightarrow> ('k \<rightharpoonup> 'v)" where
  "kv_set m k v = m(k \<mapsto> v)"

section \<open>Spaced repetition: creating a schedule\<close>

text \<open>
  \<^verbatim>\<open>app.post('/make-server-21b13642/review-schedule')\<close>. The body is
  \<^verbatim>\<open>{ topic, studiedAt }\<close>. The handler reads the clock three times: for the
  schedule id, for the default of \<^verbatim>\<open>studiedAt\<close> and for \<^verbatim>\<open>createdAt\<close>. Any
  exception (here: \<^verbatim>\<open>toISOString\<close> on an Invalid Date) is caught and answered with
  status 500; it is raised before the store is written.
\<close>

record scheduleBody =
  b_topic :: string
  b_studiedAt :: "json option"

record scheduleClock =
  c_scheduleId :: instant
  c_default :: instant
  c_createdAt :: instant

definition post_review_schedule ::
  "(string \<Rightarrow> instant option) \<Rightarrow> userId option \<Rightarrow> scheduleBody \<Rightarrow> scheduleClock \<Rightarrow> store
     \<Rightarrow> failure + (store \<times> recId \<times> isoString list)" where
  "post_review_schedule parse auth body clk st =
    (case auth of
      None \<Rightarrow> Inl Unauthorized
    | Some userId \<Rightarrow>
        let scheduleId = (userId, c_scheduleId clk);
            studyDate = newDate parse (or_now (b_studiedAt body) (c_default clk))
        in (case those
              [toISOString (plusMs studyDate (1 * 86400000)),
               toISOString (plusMs studyDate (3 * 86400000)),
               toISOString (plusMs studyDate (7 * 86400000)),
               toISOString (plusMs studyDate (14 * 86400000)),
               toISOString (plusMs studyDate (30 * 86400000))] of
             None \<Rightarrow> Inl Failed
           | Some rs \<Rightarrow>
              (case toISOString studyDate of
                 None \<Rightarrow> Inl Failed
               | Some studied \<Rightarrow>
                   Inr (st\<lparr>kv_review := kv_set (kv_review st) scheduleId
                          \<lparr>s_userId = userId, s_topic = b_topic body, s_studiedAt = studied,
                           reviews = rs, completedReviews = [],
                           s_createdAt = ISO (c_createdAt clk)\<rparr>\<rparr>,
                        scheduleId, rs))))"

text \<open>
  A date parser for the examples: the ISO strings they use, with their time values, and
  no other string. \<^verbatim>\<open>+275760-09-13T00:00:00.000Z\<close> is the last instant a
  \<^verbatim>\<open>Date\<close> can hold.
\<close>

definition example_parse :: "string \<Rightarrow> instant option" where
  "example_parse s =
    (if s = ''2024-01-01T00:00:00.000Z'' then Some 1704067200000
     else if s = ''+275760-09-13T00:00:00.000Z'' then Some 8640000000000000
     else None)"

definition empty_store :: store where
  "empty_store = \<lparr>kv_profile = Map.empty, kv_routine = Map.empty,
     kv_study_record = Map.empty, kv_goal = Map.empty, kv_task = Map.empty,
     kv_review = Map.empty\<rparr>"

section \<open>Spaced repetition: due reviews and completion\<close>


text \<open>
  \<^verbatim>\<open>app.post('/make-server-21b13642/review-complete/:id')\<close> with body
  \<^verbatim>\<open>{ reviewDate }\<close>.
\<close>

definition post_review_complete ::
  "userId option \<Rightarrow> recId \<Rightarrow> isoString \<Rightarrow> store \<Rightarrow> failure + store" where
  "post_review_complete auth reviewId reviewDate st =
    (case auth of
      None \<Rightarrow> Inl Unauthorized
    | Some userId \<Rightarrow>
       (case kv_review st reviewId of
          None \<Rightarrow> Inl NotFound
        | Some review \<Rightarrow>
            if s_userId review \<noteq> userId then Inl NotFound
            else
              let review' = review\<lparr>completedReviews := completedReviews review @ [reviewDate]\<rparr>;
                  st1 = st\<lparr>kv_review := kv_set (kv_review st) reviewId review'\<rparr>;
                  profile = kv_profile st1 userId
              in Inr (st1\<lparr>kv_profile := kv_set (kv_profile st1) userId
                       ((spread profile)\<lparr>p_xp := Some (or_0 (opt_field profile p_xp) + 15)\<rparr>)\<rparr>)))"

section \<open>Progression ledger\<close>

text \<open>
  \<^verbatim>\<open>app.post('/make-server-21b13642/routine')\<close>: stores
  \<^verbatim>\<open>{ ...routineData, createdAt, updatedAt }\<close>, then marks onboarding complete and
  adds the setup bonus.
\<close>

definition post_routine ::
  "userId option \<Rightarrow> (string \<rightharpoonup> json) \<Rightarrow> instant \<Rightarrow> instant \<Rightarrow> store \<Rightarrow> failure + store" where
  "post_routine auth routineData t_created t_updated st =
    (case auth of
      None \<Rightarrow> Inl Unauthorized
    | Some userId \<Rightarrow>
        let st1 = st\<lparr>kv_routine := kv_set (kv_routine st) userId
                      (routineData, ISO t_created, ISO t_updated)\<rparr>;
            profile = kv_profile st1 userId
        in Inr (st1\<lparr>kv_profile := kv_set (kv_profile st1) userId
                 ((spread profile)\<lparr>p_onboardingComplete := Some True,
                                    p_xp := Some (or_0 (opt_field profile p_xp) + 50)\<rparr>)\<rparr>))"

text \<open>
  \<^verbatim>\<open>app.post('/make-server-21b13642/study-record')\<close>. The handler reads the clock
  five times: for the record id, for the record's \<^verbatim>\<open>createdAt\<close>, for
  \<^verbatim>\<open>today\<close>, for yesterday's date and for the new \<^verbatim>\<open>lastStudyDate\<close>. The
  response carries \<^verbatim>\<open>recordId\<close>, \<^verbatim>\<open>xpGained\<close> and \<^verbatim>\<open>streak\<close>.
\<close>

record studyClock =
  c_recordId :: instant
  c_recordCreatedAt :: instant
  c_today :: instant
  c_yesterday :: instant
  c_lastStudyDate :: instant

definition post_study_record ::
  "userId option \<Rightarrow> studyData \<Rightarrow> studyClock \<Rightarrow> store
     \<Rightarrow> failure + (store \<times> recId \<times> int \<times> int)" where
  "post_study_record auth recordData clk st =
    (case auth of
      None \<Rightarrow> Inl Unauthorized
    | Some userId \<Rightarrow>
        let recordId = (userId, c_recordId clk);
            st1 = st\<lparr>kv_study_record := kv_set (kv_study_record st) recordId
                      \<lparr>sr_userId = userId, sr_data = recordData,
                       sr_createdAt = ISO (c_recordCreatedAt clk)\<rparr>\<rparr>;
            profile = kv_profile st1 userId;
            today = datePart (ISO (c_today clk));
            lastStudyDate = map_option datePart (opt_field profile p_lastStudyDate);
            streak0 = or_0 (opt_field profile p_streak);
            newStreak =
              (if lastStudyDate = Some today then streak0
               else if lastStudyDate = Some (datePart (ISO (c_yesterday clk - 86400000)))
                 then streak0 + 1
               else 1);
            xpGained = or_0 (sd_duration recordData) div 15 * 10
        in Inr (st1\<lparr>kv_profile := kv_set (kv_profile st1) userId
                   ((spread profile)\<lparr>p_xp := Some (or_0 (opt_field profile p_xp) + xpGained),
                                      p_streak := Some newStreak,
                                      p_lastStudyDate := Some (ISO (c_lastStudyDate clk))\<rparr>)\<rparr>,
                recordId, xpGained, newStreak))"

text \<open>\<^verbatim>\<open>{ ...task, ...updates }\<close> and \<^verbatim>\<open>{ ...goal, ...updates }\<close>.\<close>

definition merge_item :: "item \<Rightarrow> itemUpdates \<Rightarrow> item" where
  "merge_item it u =
    \<lparr>i_userId = (case u_userId u of None \<Rightarrow> i_userId it | Some v \<Rightarrow> v),
     i_completed = (case u_completed u of None \<Rightarrow> i_completed it | Some b \<Rightarrow> b),
     i_rest = i_rest it ++ u_rest u\<rparr>"

text \<open>\<^verbatim>\<open>app.put('/make-server-21b13642/task/:id')\<close>.\<close>

definition put_task ::
  "userId option \<Rightarrow> recId \<Rightarrow> itemUpdates \<Rightarrow> store \<Rightarrow> failure + (store \<times> item)" where
  "put_task auth taskId updates st =
    (case auth of
      None \<Rightarrow> Inl Unauthorized
    | Some userId \<Rightarrow>
       (case kv_task st taskId of
          None \<Rightarrow> Inl NotFound
        | Some task \<Rightarrow>
            if i_userId task \<noteq> userId then Inl NotFound
            else
              let updatedTask = merge_item task updates;
                  st1 = st\<lparr>kv_task := kv_set (kv_task st) taskId updatedTask\<rparr>
              in if u_completed updates = Some True \<and> \<not> i_completed task then
                   let profile = kv_profile st1 userId
                   in Inr (st1\<lparr>kv_profile := kv_set (kv_profile st1) userId
                             ((spread profile)\<lparr>p_xp := Some (or_0 (opt_field profile p_xp) + 20)\<rparr>)\<rparr>,
                           updatedTask)
                 else Inr (st1, updatedTask)))"

text \<open>\<^verbatim>\<open>app.put('/make-server-21b13642/goal/:id')\<close>.\<close>

definition put_goal ::
  "userId option \<Rightarrow> recId \<Rightarrow> itemUpdates \<Rightarrow> store \<Rightarrow> failure + (store \<times> item)" where
  "put_goal auth goalId updates st =
    (case auth of
      None \<Rightarrow> Inl Unauthorized
    | Some userId \<Rightarrow>
       (case kv_goal st goalId of
          None \<Rightarrow> Inl NotFound
        | Some goal \<Rightarrow>
            if i_userId goal \<noteq> userId then Inl NotFound
            else
              let updatedGoal = merge_item goal updates;
                  st1 = st\<lparr>kv_goal := kv_set (kv_goal st) goalId updatedGoal\<rparr>
              in if u_completed updates = Some True \<and> \<not> i_completed goal then
                   let profile = kv_profile st1 userId
                   in Inr (st1\<lparr>kv_profile := kv_set (kv_profile st1) userId
                             ((spread profile)\<lparr>p_xp := Some (or_0 (opt_field profile p_xp) + 100)\<rparr>)\<rparr>,
                           updatedGoal)
                 else Inr (st1, updatedGoal)))"

section \<open>Profile update\<close>

text \<open>
  \<^verbatim>\<open>app.post('/make-server-21b13642/profile')\<close> stores
  \<^verbatim>\<open>{ ...currentProfile, ...updates }\<close> and returns it. The handler never looks at
  a property, so it is embedded over objects with property values of any type: an
  object is a map from property names, \<open>kv\<close> is the \<^verbatim>\<open>user_profile:\<close> part of the
  store, and spreading an undefined \<^verbatim>\<open>currentProfile\<close> contributes nothing.
\<close>

type_synonym 'v object = "string \<rightharpoonup> 'v"

definition post_profile ::
  "userId option \<Rightarrow> 'v object \<Rightarrow> (userId \<rightharpoonup> 'v object)
     \<Rightarrow> failure + ((userId \<rightharpoonup> 'v object) \<times> 'v object)" where
  "post_profile auth updates kv =
    (case auth of
      None \<Rightarrow> Inl Unauthorized
    | Some userId \<Rightarrow>
        let currentProfile = kv userId;
            updatedProfile = (case currentProfile of None \<Rightarrow> Map.empty | Some p \<Rightarrow> p) ++ updates
        in Inr (kv_set kv userId updatedProfile, updatedProfile))"

text \<open>The profile written at signup and the stored xp of a user.\<close>

definition signup_profile :: "string \<Rightarrow> string \<Rightarrow> instant \<Rightarrow> profile" where
  "signup_profile name email t =
    \<lparr>p_name = Some name, p_email = Some email, p_createdAt = Some (ISO t), p_xp = Some 0,
     p_level = Some 1, p_streak = Some 0, p_lastStudyDate = None, p_achievements = Some [],
     p_onboardingComplete = Some False\<rparr>"

definition stored_xp :: "store \<Rightarrow> userId \<Rightarrow> int" where
  "stored_xp st u = or_0 (opt_field (kv_profile st u) p_xp)"

section \<open>Example data\<close>

text \<open>
  User \<^verbatim>\<open>u1\<close> signed up on 2024-01-01 and last studied at 2024-01-01T00:00:00Z
  (1704067200000 ms) with a streak of 4 and 120 XP. Task \<open>(u1, 1)\<close> is completed, goal
  \<open>(u1, 2)\<close> is open, and of the schedule \<open>(u1, 3)\<close> the first review is completed.
\<close>

definition example_profile :: profile where
  "example_profile = (signup_profile ''Ann'' ''ann@example.org'' 1704067200000)
     \<lparr>p_xp := Some 120, p_streak := Some 4, p_lastStudyDate := Some (ISO 1704067200000)\<rparr>"

definition example_schedule :: "isoString schedule" where
  "example_schedule =
    \<lparr>s_userId = ''u1'', s_topic = ''X'', s_studiedAt = ISO 1704067200000,
     reviews = [ISO 1704153600000, ISO 1704326400000, ISO 1704672000000,
                ISO 1705276800000, ISO 1706659200000],
     completedReviews = [ISO 1704153600000], s_createdAt = ISO 1704067200000\<rparr>"

definition example_store :: store where
  "example_store = empty_store
     \<lparr>kv_profile := [''u1'' \<mapsto> example_profile],
      kv_goal := [(''u1'', 2) \<mapsto> \<lparr>i_userId = ''u1'', i_completed = False, i_rest = Map.empty\<rparr>],
      kv_task := [(''u1'', 1) \<mapsto> \<lparr>i_userId = ''u1'', i_completed = True, i_rest = Map.empty\<rparr>],
      kv_review := [(''u1'', 3) \<mapsto> example_schedule]\<rparr>"

text \<open>A 45-minute session logged at 2024-01-02T10:00:00Z (1704189600000 ms).\<close>

definition example_session :: studyData where
  "example_session = \<lparr>sd_subject = ''Maths'', sd_topic = ''X'', sd_duration = Some 45,
     sd_focusLevel = 4, sd_energyLevel = 3, sd_distractions = 0, sd_source = ''self-study''\<rparr>"

definition example_studyClock :: studyClock where
  "example_studyClock = \<lparr>c_recordId = 1704189600000, c_recordCreatedAt = 1704189600000,
     c_today = 1704189600000, c_yesterday = 1704189600000, c_lastStudyDate = 1704189600000\<rparr>"

definition example_scheduleClock :: scheduleClock where
  "example_scheduleClock = \<lparr>c_scheduleId = 1704189600000, c_default = 1704189600001,
     c_createdAt = 1704189600002\<rparr>"

definition completing :: itemUpdates where
  "completing = \<lparr>u_userId = None, u_completed = Some True, u_rest = Map.empty\<rparr>"


text \<open>A user right after signup.\<close>

definition fresh_store :: store where
  "fresh_store = empty_store
     \<lparr>kv_profile := [''u1'' \<mapsto> signup_profile ''Ann'' ''ann@example.org'' 1704067200000]\<rparr>"

text \<open>A profile as an object, and an update object that lowers xp and resets onboarding.\<close>

definition example_object :: "json object" where
  "example_object = [''name'' \<mapsto> JStr ''Ann'', ''xp'' \<mapsto> JNum 500,
     ''onboardingComplete'' \<mapsto> JBool True]"

definition example_updates :: "json object" where
  "example_updates = [''xp'' \<mapsto> JNum 0, ''onboardingComplete'' \<mapsto> JBool False]"

section \<open>Auxiliary facts\<close>

lemma kv_set_apply: "kv_set m k x k' = (if k' = k then Some x else m k')"
  by (simp add: kv_set_def)

lemma or_0_id [simp]: "or_0 (Some n) = n"
  by simp

lemma or_0_opt_field: "or_0 (opt_field (kv_profile st u) p_xp) = stored_xp st u"
  by (simp add: stored_xp_def)

lemma stored_xp_kv_set:
  "stored_xp (st\<lparr>kv_profile := kv_set m u p\<rparr>) v =
     (if v = u then or_0 (p_xp p) else or_0 (opt_field (m v) p_xp))"
  by (simp add: stored_xp_def kv_set_def)

lemma stored_xp_other [simp]:
  "stored_xp (st\<lparr>kv_study_record := x\<rparr>) v = stored_xp st v"
  "stored_xp (st\<lparr>kv_routine := y\<rparr>) v = stored_xp st v"
  "stored_xp (st\<lparr>kv_task := z\<rparr>) v = stored_xp st v"
  "stored_xp (st\<lparr>kv_goal := z\<rparr>) v = stored_xp st v"
  "stored_xp (st\<lparr>kv_review := w\<rparr>) v = stored_xp st v"
  by (simp_all add: stored_xp_def)

lemma newDate_range: "newDate parse j = Some T \<Longrightarrow> \<bar>T\<bar> \<le> 8640000000000000"
  by (cases j) (auto simp: TimeClip_def split: option.splits if_splits)

text \<open>Schedule creation from a valid study date whose last review is in range.\<close>

lemma post_review_schedule_valid:
  assumes sd: "newDate parse (or_now v (c_default clk)) = Some T"
    and top: "T + 2592000000 \<le> 8640000000000000"
  shows "post_review_schedule parse (Some u) \<lparr>b_topic = tp, b_studiedAt = v\<rparr> clk st =
      Inr (st\<lparr>kv_review := kv_set (kv_review st) (u, c_scheduleId clk)
               \<lparr>s_userId = u, s_topic = tp, s_studiedAt = ISO T,
                reviews = [ISO (T + 86400000), ISO (T + 259200000), ISO (T + 604800000),
                           ISO (T + 1209600000), ISO (T + 2592000000)],
                completedReviews = [], s_createdAt = ISO (c_createdAt clk)\<rparr>\<rparr>,
           (u, c_scheduleId clk),
           [ISO (T + 86400000), ISO (T + 259200000), ISO (T + 604800000),
            ISO (T + 1209600000), ISO (T + 2592000000)])"
proof -
  have r: "\<bar>T\<bar> \<le> 8640000000000000" using sd by (rule newDate_range)
  show ?thesis
    using r top sd
    by (simp add: post_review_schedule_def Let_def plusMs_def TimeClip_def toISOString_def
         del: or_now.simps) linarith
qed




text \<open>Which requests are answered with success, and what a routine submission adds.\<close>

lemma post_study_record_returns:
  "\<exists>st' r. post_study_record (Some u) rd clk st = Inr (st', r)"
  by (simp add: post_study_record_def Let_def)

lemma post_routine_returns: "\<exists>st'. post_routine (Some u) rt t1 t2 st = Inr st'"
  by (simp add: post_routine_def Let_def)

lemma post_routine_xp:
  "\<exists>st'. post_routine (Some u) rt t1 t2 st = Inr st' \<and> stored_xp st' u = stored_xp st u + 50"
  by (simp add: post_routine_def Let_def stored_xp_kv_set or_0_opt_field del: or_0.simps)

lemma put_task_returns:
  "kv_task st tid = Some t \<Longrightarrow> i_userId t = u \<Longrightarrow> \<exists>st' r. put_task (Some u) tid upd st = Inr (st', r)"
  by (simp add: put_task_def Let_def)

lemma put_goal_returns:
  "kv_goal st gid = Some g \<Longrightarrow> i_userId g = u \<Longrightarrow> \<exists>st' r. put_goal (Some u) gid upd st = Inr (st', r)"
  by (simp add: put_goal_def Let_def)

lemma post_review_complete_returns:
  "kv_review st rid = Some r \<Longrightarrow> s_userId r = u
     \<Longrightarrow> \<exists>st'. post_review_complete (Some u) rid d st = Inr st'"
  by (simp add: post_review_complete_def Let_def)

section \<open>Claims\<close>

text \<open>
  C1 (as amended). For every \<^verbatim>\<open>studiedAt\<close> that is truthy and that the
  \<^verbatim>\<open>Date\<close> constructor reads as the valid time value \<open>T\<close> (a date string parsing
  to \<open>T\<close>, or a non-zero number), and with \<open>T + 2592000000\<close> still within the range
  of a \<^verbatim>\<open>Date\<close>, creating a review schedule succeeds; the stored and the returned
  reviews are exactly the five timestamps at \<open>T\<close> plus 86400000, 259200000, 604800000,
  1209600000 and 2592000000 milliseconds (1, 3, 7, 14 and 30 days of 86400 seconds), in
  strictly ascending order.
\<close>

theorem review_schedule_offsets:
  assumes "truthy (Some j)" and "newDate parse j = Some T"
    and "T + 2592000000 \<le> 8640000000000000"
  shows "\<exists>st' rs.
      post_review_schedule parse (Some u) \<lparr>b_topic = tp, b_studiedAt = Some j\<rparr> clk st =
        Inr (st', (u, c_scheduleId clk), rs)
    \<and> map_option reviews (kv_review st' (u, c_scheduleId clk)) = Some rs
    \<and> rs = [ISO (T + 86400000), ISO (T + 259200000), ISO (T + 604800000),
            ISO (T + 1209600000), ISO (T + 2592000000)]
    \<and> length rs = 5
    \<and> sorted_wrt (<) (map timeOf rs)"
proof -
  have sd: "newDate parse (or_now (Some j) (c_default clk)) = Some T"
    using assms(1,2) by simp
  show ?thesis
    by (simp add: post_review_schedule_valid [OF sd assms(3)] kv_set_apply)
qed

theorem review_schedule_offsets_witness:
  "truthy (Some (JStr ''2024-01-01T00:00:00.000Z''))
   \<and> newDate example_parse (JStr ''2024-01-01T00:00:00.000Z'') = Some 1704067200000
   \<and> (1704067200000::int) + 2592000000 \<le> 8640000000000000
   \<and> (\<exists>st'. post_review_schedule example_parse (Some ''u1'')
          \<lparr>b_topic = ''X'', b_studiedAt = Some (JStr ''2024-01-01T00:00:00.000Z'')\<rparr>
          example_scheduleClock example_store =
        Inr (st', (''u1'', 1704189600000),
             [ISO 1704153600000, ISO 1704326400000, ISO 1704672000000,
              ISO 1705276800000, ISO 1706659200000]))"
proof -
  have h1: "truthy (Some (JStr ''2024-01-01T00:00:00.000Z''))" by simp
  have h2: "newDate example_parse (JStr ''2024-01-01T00:00:00.000Z'') = Some 1704067200000"
    by (simp add: example_parse_def TimeClip_def)
  have h3: "(1704067200000::int) + 2592000000 \<le> 8640000000000000" by simp
  from review_schedule_offsets [OF h1 h2 h3, of "''u1''" "''X''" example_scheduleClock example_store]
  show ?thesis using h2 by (auto simp: example_scheduleClock_def)
qed

theorem review_schedule_range_counterexample:
  "newDate example_parse (JStr ''+275760-09-13T00:00:00.000Z'') = Some 8640000000000000
   \<and> post_review_schedule example_parse (Some ''u1'')
        \<lparr>b_topic = ''X'', b_studiedAt = Some (JStr ''+275760-09-13T00:00:00.000Z'')\<rparr>
        example_scheduleClock example_store = Inl Failed"
  by (simp add: post_review_schedule_def example_parse_def TimeClip_def plusMs_def
        toISOString_def)









text \<open>
  C6. No ledger operation decreases a stored xp: after a study record with a duration
  \<open>\<ge> 0\<close>, a task update, a goal update, a review completion or a routine
  submission, the stored xp of every user is at least what it was before. (A request
  that is answered with a failure has written nothing to a profile.)
\<close>

theorem xp_never_decreases:
  "(0 \<le> or_0 (sd_duration rd) \<longrightarrow>
      (\<forall>st' r. post_study_record a rd sclk st = Inr (st', r) \<longrightarrow> stored_xp st v \<le> stored_xp st' v))
   \<and> (\<forall>st' r. put_task a tid upd st = Inr (st', r) \<longrightarrow> stored_xp st v \<le> stored_xp st' v)
   \<and> (\<forall>st' r. put_goal a gid upd st = Inr (st', r) \<longrightarrow> stored_xp st v \<le> stored_xp st' v)
   \<and> (\<forall>st'. post_review_complete a rid d st = Inr st' \<longrightarrow> stored_xp st v \<le> stored_xp st' v)
   \<and> (\<forall>st'. post_routine a rt t1 t2 st = Inr st' \<longrightarrow> stored_xp st v \<le> stored_xp st' v)"
proof (intro conjI impI allI)
  fix st' r assume "0 \<le> or_0 (sd_duration rd)" "post_study_record a rd sclk st = Inr (st', r)"
  then show "stored_xp st v \<le> stored_xp st' v"
    by (auto simp: post_study_record_def Let_def stored_xp_kv_set or_0_opt_field
          simp del: or_0.simps split: option.splits)
next
  fix st' r assume "put_task a tid upd st = Inr (st', r)"
  then show "stored_xp st v \<le> stored_xp st' v"
    by (auto simp: put_task_def Let_def stored_xp_kv_set or_0_opt_field
          simp del: or_0.simps split: option.splits if_splits)
next
  fix st' r assume "put_goal a gid upd st = Inr (st', r)"
  then show "stored_xp st v \<le> stored_xp st' v"
    by (auto simp: put_goal_def Let_def stored_xp_kv_set or_0_opt_field
          simp del: or_0.simps split: option.splits if_splits)
next
  fix st' assume "post_review_complete a rid d st = Inr st'"
  then show "stored_xp st v \<le> stored_xp st' v"
    by (auto simp: post_review_complete_def Let_def stored_xp_kv_set or_0_opt_field
          simp del: or_0.simps split: option.splits if_splits)
next
  fix st' assume "post_routine a rt t1 t2 st = Inr st'"
  then show "stored_xp st v \<le> stored_xp st' v"
    by (auto simp: post_routine_def Let_def stored_xp_kv_set or_0_opt_field
          simp del: or_0.simps split: option.splits if_splits)
qed

theorem xp_never_decreases_witness:
  "0 \<le> or_0 (sd_duration example_session)
   \<and> (\<exists>st' r. post_study_record (Some ''u1'') example_session example_studyClock example_store
          = Inr (st', r) \<and> stored_xp example_store ''u1'' \<le> stored_xp st' ''u1'')
   \<and> (\<exists>st' r. put_task (Some ''u1'') (''u1'', 1) completing example_store = Inr (st', r)
          \<and> stored_xp example_store ''u1'' \<le> stored_xp st' ''u1'')
   \<and> (\<exists>st' r. put_goal (Some ''u1'') (''u1'', 2) completing example_store = Inr (st', r)
          \<and> stored_xp example_store ''u1'' \<le> stored_xp st' ''u1'')
   \<and> (\<exists>st'. post_review_complete (Some ''u1'') (''u1'', 3) (ISO 1704326400000) example_store
          = Inr st' \<and> stored_xp example_store ''u1'' \<le> stored_xp st' ''u1'')
   \<and> (\<exists>st'. post_routine (Some ''u1'') Map.empty 1704189600000 1704189600000 example_store
          = Inr st' \<and> stored_xp example_store ''u1'' \<le> stored_xp st' ''u1'')"
proof -
  note mono = xp_never_decreases [where rd = example_session and a = "Some ''u1''"
      and sclk = example_studyClock and st = example_store and v = "''u1''"
      and tid = "(''u1'', 1)" and gid = "(''u1'', 2)" and upd = completing
      and rid = "(''u1'', 3)" and d = "ISO 1704326400000"
      and rt = Map.empty and ?t1.0 = 1704189600000 and ?t2.0 = 1704189600000]
  have d: "0 \<le> or_0 (sd_duration example_session)"
    by (simp add: example_session_def)
  have k1: "kv_task example_store (''u1'', 1) =
      Some \<lparr>i_userId = ''u1'', i_completed = True, i_rest = Map.empty\<rparr>"
    by (simp add: example_store_def)
  have k2: "kv_goal example_store (''u1'', 2) =
      Some \<lparr>i_userId = ''u1'', i_completed = False, i_rest = Map.empty\<rparr>"
    by (simp add: example_store_def)
  have k3: "kv_review example_store (''u1'', 3) = Some example_schedule"
    by (simp add: example_store_def)
  obtain s1 r1 where
    "post_study_record (Some ''u1'') example_session example_studyClock example_store = Inr (s1, r1)"
    using post_study_record_returns by blast
  moreover obtain s2 r2 where
    "put_task (Some ''u1'') (''u1'', 1) completing example_store = Inr (s2, r2)"
    using put_task_returns [OF k1, of "''u1''" completing] by auto
  moreover obtain s3 r3 where
    "put_goal (Some ''u1'') (''u1'', 2) completing example_store = Inr (s3, r3)"
    using put_goal_returns [OF k2, of "''u1''" completing] by auto
  moreover obtain s4 where
    "post_review_complete (Some ''u1'') (''u1'', 3) (ISO 1704326400000) example_store = Inr s4"
    using post_review_complete_returns [OF k3, of "''u1''" "ISO 1704326400000"]
    by (auto simp: example_schedule_def)
  moreover obtain s5 where
    "post_routine (Some ''u1'') Map.empty 1704189600000 1704189600000 example_store = Inr s5"
    using post_routine_returns by blast
  ultimately show ?thesis using mono d by blast
qed

text \<open>
  C7 (violated by the code). The routine handler adds the setup bonus on every
  submission: for the user whose profile is as written at signup, two submissions leave
  an xp of 100.
\<close>

theorem routine_bonus_twice:
  "\<exists>st1 st2.
      post_routine (Some ''u1'') Map.empty 1704189600000 1704189600000 fresh_store = Inr st1
    \<and> post_routine (Some ''u1'') Map.empty 1704189700000 1704189700000 st1 = Inr st2
    \<and> stored_xp fresh_store ''u1'' = 0
    \<and> stored_xp st1 ''u1'' = 50
    \<and> stored_xp st2 ''u1'' = 100"
proof -
  have x: "stored_xp fresh_store ''u1'' = 0"
    by (simp add: stored_xp_def fresh_store_def signup_profile_def)
  obtain st1 where 1: "post_routine (Some ''u1'') Map.empty 1704189600000 1704189600000 fresh_store
      = Inr st1" and x1: "stored_xp st1 ''u1'' = stored_xp fresh_store ''u1'' + 50"
    using post_routine_xp by blast
  obtain st2 where 2: "post_routine (Some ''u1'') Map.empty 1704189700000 1704189700000 st1
      = Inr st2" and x2: "stored_xp st2 ''u1'' = stored_xp st1 ''u1'' + 50"
    using post_routine_xp by blast
  from 1 2 x x1 x2 show ?thesis by simp
qed



text \<open>
  C9 (as amended). A \<^verbatim>\<open>studiedAt\<close> that is truthy and does not give a valid
  \<^verbatim>\<open>Date\<close> (a non-empty string the date parser rejects) makes schedule creation
  fail with status 500 before anything is stored; the current time is not substituted.
  A falsy \<^verbatim>\<open>studiedAt\<close> (null, false, 0 or the empty string) is treated exactly as
  an absent one, and for an absent one the schedule is created from the clock reading.
\<close>

theorem review_schedule_invalid_studiedAt:
  "(truthy (Some j) \<and> newDate parse j = None \<longrightarrow>
      post_review_schedule parse (Some u) \<lparr>b_topic = tp, b_studiedAt = Some j\<rparr> clk st = Inl Failed)
   \<and> (\<not> truthy (Some j) \<longrightarrow>
      post_review_schedule parse (Some u) \<lparr>b_topic = tp, b_studiedAt = Some j\<rparr> clk st =
      post_review_schedule parse (Some u) \<lparr>b_topic = tp, b_studiedAt = None\<rparr> clk st)
   \<and> (\<bar>c_default clk\<bar> \<le> 8640000000000000 \<and> c_default clk + 2592000000 \<le> 8640000000000000 \<longrightarrow>
      (\<exists>st' rs. post_review_schedule parse (Some u) \<lparr>b_topic = tp, b_studiedAt = None\<rparr> clk st =
          Inr (st', (u, c_scheduleId clk), rs)
        \<and> map_option s_studiedAt (kv_review st' (u, c_scheduleId clk)) = Some (ISO (c_default clk))
        \<and> rs = [ISO (c_default clk + 86400000), ISO (c_default clk + 259200000),
                ISO (c_default clk + 604800000), ISO (c_default clk + 1209600000),
                ISO (c_default clk + 2592000000)]))"
proof (intro conjI impI)
  assume "\<bar>c_default clk\<bar> \<le> 8640000000000000 \<and> c_default clk + 2592000000 \<le> 8640000000000000"
  then have sd: "newDate parse (or_now None (c_default clk)) = Some (c_default clk)"
    and top: "c_default clk + 2592000000 \<le> 8640000000000000"
    by (simp_all add: TimeClip_def)
  show "\<exists>st' rs. post_review_schedule parse (Some u) \<lparr>b_topic = tp, b_studiedAt = None\<rparr> clk st =
          Inr (st', (u, c_scheduleId clk), rs)
        \<and> map_option s_studiedAt (kv_review st' (u, c_scheduleId clk)) = Some (ISO (c_default clk))
        \<and> rs = [ISO (c_default clk + 86400000), ISO (c_default clk + 259200000),
                ISO (c_default clk + 604800000), ISO (c_default clk + 1209600000),
                ISO (c_default clk + 2592000000)]"
    by (simp add: post_review_schedule_valid [OF sd top] kv_set_apply)
next
  assume "truthy (Some j) \<and> newDate parse j = None"
  then show "post_review_schedule parse (Some u) \<lparr>b_topic = tp, b_studiedAt = Some j\<rparr> clk st
      = Inl Failed"
    by (simp add: post_review_schedule_def Let_def plusMs_def toISOString_def)
next
  assume "\<not> truthy (Some j)"
  then have "or_now (Some j) (c_default clk) = or_now None (c_default clk)" by simp
  then show "post_review_schedule parse (Some u) \<lparr>b_topic = tp, b_studiedAt = Some j\<rparr> clk st =
      post_review_schedule parse (Some u) \<lparr>b_topic = tp, b_studiedAt = None\<rparr> clk st"
    by (simp add: post_review_schedule_def Let_def del: or_now.simps cong: option.case_cong)
qed

theorem review_schedule_invalid_studiedAt_witness:
  "truthy (Some (JStr ''not-a-date'')) \<and> newDate example_parse (JStr ''not-a-date'') = None
   \<and> post_review_schedule example_parse (Some ''u1'')
        \<lparr>b_topic = ''X'', b_studiedAt = Some (JStr ''not-a-date'')\<rparr>
        example_scheduleClock example_store = Inl Failed
   \<and> \<not> truthy (Some JNull)
   \<and> post_review_schedule example_parse (Some ''u1'')
        \<lparr>b_topic = ''X'', b_studiedAt = Some JNull\<rparr> example_scheduleClock example_store =
      post_review_schedule example_parse (Some ''u1'')
        \<lparr>b_topic = ''X'', b_studiedAt = None\<rparr> example_scheduleClock example_store
   \<and> \<bar>c_default example_scheduleClock\<bar> \<le> 8640000000000000
   \<and> c_default example_scheduleClock + 2592000000 \<le> 8640000000000000
   \<and> (\<exists>st'. post_review_schedule example_parse (Some ''u1'')
          \<lparr>b_topic = ''X'', b_studiedAt = None\<rparr> example_scheduleClock example_store =
        Inr (st', (''u1'', 1704189600000),
             [ISO 1704276000001, ISO 1704448800001, ISO 1704794400001,
              ISO 1705399200001, ISO 1706781600001])
        \<and> map_option s_studiedAt (kv_review st' (''u1'', 1704189600000))
            = Some (ISO 1704189600001))"
proof -
  have h1: "truthy (Some (JStr ''not-a-date'')) \<and> newDate example_parse (JStr ''not-a-date'') = None"
    by (simp add: example_parse_def)
  have h2: "\<not> truthy (Some JNull)" by simp
  have h3: "\<bar>c_default example_scheduleClock\<bar> \<le> 8640000000000000
      \<and> c_default example_scheduleClock + 2592000000 \<le> 8640000000000000"
    by (simp add: example_scheduleClock_def)
  have c: "c_default example_scheduleClock = 1704189600001"
      "c_scheduleId example_scheduleClock = 1704189600000"
    by (simp_all add: example_scheduleClock_def)
  from review_schedule_invalid_studiedAt [of "JStr ''not-a-date''" example_parse "''u1''" "''X''"
      example_scheduleClock example_store]
  have a: "post_review_schedule example_parse (Some ''u1'')
        \<lparr>b_topic = ''X'', b_studiedAt = Some (JStr ''not-a-date'')\<rparr>
        example_scheduleClock example_store = Inl Failed"
    using h1 by blast
  from review_schedule_invalid_studiedAt [of JNull example_parse "''u1''" "''X''"
      example_scheduleClock example_store]
  have b: "post_review_schedule example_parse (Some ''u1'')
        \<lparr>b_topic = ''X'', b_studiedAt = Some JNull\<rparr> example_scheduleClock example_store =
      post_review_schedule example_parse (Some ''u1'')
        \<lparr>b_topic = ''X'', b_studiedAt = None\<rparr> example_scheduleClock example_store"
    and d: "\<exists>st' rs. post_review_schedule example_parse (Some ''u1'')
          \<lparr>b_topic = ''X'', b_studiedAt = None\<rparr> example_scheduleClock example_store =
          Inr (st', (''u1'', c_scheduleId example_scheduleClock), rs)
        \<and> map_option s_studiedAt (kv_review st' (''u1'', c_scheduleId example_scheduleClock))
            = Some (ISO (c_default example_scheduleClock))
        \<and> rs = [ISO (c_default example_scheduleClock + 86400000),
                ISO (c_default example_scheduleClock + 259200000),
                ISO (c_default example_scheduleClock + 604800000),
                ISO (c_default example_scheduleClock + 1209600000),
                ISO (c_default example_scheduleClock + 2592000000)]"
    using h2 h3 by blast+
  from d have e: "\<exists>st'. post_review_schedule example_parse (Some ''u1'')
          \<lparr>b_topic = ''X'', b_studiedAt = None\<rparr> example_scheduleClock example_store =
        Inr (st', (''u1'', 1704189600000),
             [ISO 1704276000001, ISO 1704448800001, ISO 1704794400001,
              ISO 1705399200001, ISO 1706781600001])
        \<and> map_option s_studiedAt (kv_review st' (''u1'', 1704189600000))
            = Some (ISO 1704189600001)"
    by (auto simp: c)
  from h1 h2 h3 a b e show ?thesis by blast
qed

theorem review_schedule_empty_studiedAt_counterexample:
  "example_parse '''' = None
   \<and> post_review_schedule example_parse (Some ''u1'')
        \<lparr>b_topic = ''X'', b_studiedAt = Some (JStr '''')\<rparr> example_scheduleClock example_store =
      Inr (example_store\<lparr>kv_review := kv_set (kv_review example_store) (''u1'', 1704189600000)
              \<lparr>s_userId = ''u1'', s_topic = ''X'', s_studiedAt = ISO 1704189600001,
               reviews = [ISO 1704276000001, ISO 1704448800001, ISO 1704794400001,
                          ISO 1705399200001, ISO 1706781600001],
               completedReviews = [], s_createdAt = ISO 1704189600002\<rparr>\<rparr>,
           (''u1'', 1704189600000),
           [ISO 1704276000001, ISO 1704448800001, ISO 1704794400001,
            ISO 1705399200001, ISO 1706781600001])"
  by (simp add: post_review_schedule_def Let_def example_parse_def example_scheduleClock_def
        TimeClip_def plusMs_def toISOString_def)

text \<open>
  C10. For a stored profile \<open>P\<close> and an update object \<open>U\<close>, the profile update stores
  and returns the shallow merge of \<open>P\<close> overridden by \<open>U\<close>: every property of \<open>U\<close>
  replaces the stored one with the value as sent, whatever the property and the value,
  and the other properties stay. So an update can lower xp or reset
  \<open>onboardingComplete\<close>.
\<close>

theorem profile_update_merge:
  assumes "kv u = Some P"
  shows "post_profile (Some u) U kv = Inr (kv_set kv u (P ++ U), P ++ U)
     \<and> (\<forall>k. (P ++ U) k = (case U k of None \<Rightarrow> P k | Some v \<Rightarrow> Some v))"
  using assms by (auto simp: post_profile_def Let_def map_add_def split: option.splits)

theorem profile_update_merge_witness:
  "[''u1'' \<mapsto> example_object] ''u1'' = Some example_object
   \<and> example_object ''xp'' = Some (JNum 500)
   \<and> example_object ''onboardingComplete'' = Some (JBool True)
   \<and> (\<exists>kv' P'. post_profile (Some ''u1'') example_updates [''u1'' \<mapsto> example_object]
          = Inr (kv', P')
        \<and> kv' ''u1'' = Some P'
        \<and> P' ''xp'' = Some (JNum 0)
        \<and> P' ''onboardingComplete'' = Some (JBool False)
        \<and> P' ''name'' = Some (JStr ''Ann''))"
proof -
  have h: "[''u1'' \<mapsto> example_object] ''u1'' = Some example_object" by simp
  have u: "example_updates ''xp'' = Some (JNum 0)"
      "example_updates ''onboardingComplete'' = Some (JBool False)"
      "example_updates ''name'' = None"
    by (simp_all add: example_updates_def)
  have p: "example_object ''xp'' = Some (JNum 500)"
      "example_object ''onboardingComplete'' = Some (JBool True)"
      "example_object ''name'' = Some (JStr ''Ann'')"
    by (simp_all add: example_object_def)
  from profile_update_merge [where kv = "[''u1'' \<mapsto> example_object]" and u = "''u1''"
      and P = example_object and U = example_updates]
  show ?thesis using h by (simp add: u p kv_set_apply map_add_def)
qed

end
